theory Spec2Isabelle
  imports Complex_Main "HOL-Library.Stream"
begin

section \<open>Exceptions and values\<close>

text \<open>
  The exceptions that the client can raise.  The first four non-socket ones are the
  classes declared at the top of \<^verbatim>\<open>beanstalkc.py\<close>; \<open>SocketError\<close> stands for
  Python's \<^verbatim>\<open>socket.error\<close> (the exception the retry loops catch), the rest are
  the built-in exceptions that the code can raise on its way.
  \<open>CommandFailed\<close> and \<open>UnexpectedResponse\<close> carry the command name, the status and
  the remaining tokens of the response line.
\<close>

datatype exn =
    SocketError
  | CommandFailed string string "string list"
  | UnexpectedResponse string string "string list"
  | DeadlineSoon "string list"
  | ValueError
  | IndexError
  | KeyError
  | TypeError
  | AssertionError
  | OverflowError


section \<open>The connection\<close>

text \<open>
  The fields of \<^verbatim>\<open>Connection\<close>.  \<open>has_socket\<close> is \<^verbatim>\<open>self._socket is not None\<close>;
  \<open>connection_timeout\<close> is a number or Python's \<^verbatim>\<open>None\<close>; \<open>reconnect_strategy\<close> is a
  string or \<^verbatim>\<open>None\<close>.  The lock is not modelled: one thread of control.
\<close>

record connection =
  has_socket :: bool
  tube :: string
  host :: string
  port :: int
  connection_timeout :: "real option"
  unsuccessful_connects :: nat
  upper_backoff_bound :: real
  reconnect_strategy :: "string option"

definition DEFAULT_HOST :: string where "DEFAULT_HOST = ''localhost''"
definition DEFAULT_PORT :: int where "DEFAULT_PORT = 11300"
definition DEFAULT_TTR :: int where "DEFAULT_TTR = 120"
definition DEFAULT_TIMEOUT :: real where "DEFAULT_TIMEOUT = 5 / 100"
definition DEFAULT_UPPER_BACKOFF_BOUND :: real where "DEFAULT_UPPER_BACKOFF_BOUND = 30"

text \<open>The property \<^verbatim>\<open>Connection.closed\<close>.\<close>

definition conn_closed :: "connection \<Rightarrow> bool" where
  "conn_closed c = (\<not> has_socket c)"

text \<open>
  Truth value of a timeout, for \<^verbatim>\<open>x or y\<close> and \<^verbatim>\<open>x and y\<close>: \<^verbatim>\<open>None\<close> and zero are false.
\<close>

definition truthy_timeout :: "real option \<Rightarrow> bool" where
  "truthy_timeout t = (case t of None \<Rightarrow> False | Some x \<Rightarrow> x \<noteq> 0)"

text \<open>
  \<^verbatim>\<open>math.pow(2.0, n)\<close> for a non-negative integer \<open>n\<close>: the exact power while it is a
  double, and \<^verbatim>\<open>OverflowError: math range error\<close> from \<open>2 ^ 1024\<close> on.
\<close>

definition math_pow2 :: "nat \<Rightarrow> exn + real" where
  "math_pow2 n = (if n < 1024 then Inr (2 ^ n) else Inl OverflowError)"

text \<open>
  \<^verbatim>\<open>Connection._current_wait_time\<close>.  The argument \<open>r\<close> is the value that
  \<^verbatim>\<open>random.uniform(1.0, 2.0)\<close> returns (drawn only in the back-off branch).
  Products and \<^verbatim>\<open>min\<close> are computed in the reals.
\<close>

definition current_wait_time :: "real \<Rightarrow> connection \<Rightarrow> exn + real option" where
  "current_wait_time r c =
     (let timeout = (if truthy_timeout (connection_timeout c)
                     then the (connection_timeout c) else DEFAULT_TIMEOUT)
      in if reconnect_strategy c = None then Inr (connection_timeout c)
         else if reconnect_strategy c = Some ''exp_backoff'' then
           (case math_pow2 (unsuccessful_connects c) of
              Inl e \<Rightarrow> Inl e
            | Inr p \<Rightarrow> Inr (Some (min (r * timeout * p) (upper_backoff_bound c))))
         else if reconnect_strategy c = Some ''constant'' then Inr (Some timeout)
         else Inl ValueError)"


section \<open>Strings and numbers of the Python runtime\<close>

definition newline :: char where "newline = CHR 0x0A"

definition CRLF :: string where "CRLF = [CHR 0x0D, CHR 0x0A]"

text \<open>Whitespace of a byte string: what \<^verbatim>\<open>str.split()\<close>, \<^verbatim>\<open>str.strip()\<close> and \<^verbatim>\<open>\s\<close> accept.\<close>

definition is_space :: "char \<Rightarrow> bool" where
  "is_space c = (c \<in> set [CHR '' '', CHR 0x09, CHR 0x0A, CHR 0x0B, CHR 0x0C, CHR 0x0D])"

definition is_digit :: "char \<Rightarrow> bool" where
  "is_digit c = (c \<in> set ''0123456789'')"

text \<open>\<^verbatim>\<open>s.split()\<close>: the maximal runs of non-whitespace characters of \<open>s\<close>.\<close>

fun split_ws :: "string \<Rightarrow> string \<Rightarrow> string list" where
  "split_ws cur [] = (if cur = [] then [] else [cur])"
| "split_ws cur (c # cs) =
     (if is_space c then (if cur = [] then split_ws [] cs else cur # split_ws [] cs)
      else split_ws (cur @ [c]) cs)"

definition py_split :: "string \<Rightarrow> string list" where
  "py_split s = split_ws [] s"

definition strip :: "string \<Rightarrow> string" where
  "strip s = rev (dropWhile is_space (rev (dropWhile is_space s)))"

fun digits_val :: "nat \<Rightarrow> string \<Rightarrow> nat" where
  "digits_val acc [] = acc"
| "digits_val acc (c # cs) = digits_val (acc * 10 + (of_char c - 48)) cs"

text \<open>An optional sign in front of a number: whether it is a minus, and the rest.\<close>

definition split_sign :: "string \<Rightarrow> bool \<times> string" where
  "split_sign s =
     (case s of [] \<Rightarrow> (False, [])
      | c # cs \<Rightarrow> if c = CHR ''-'' then (True, cs)
                  else if c = CHR ''+'' then (False, cs) else (False, s))"

text \<open>
  \<^verbatim>\<open>int(s)\<close> on a byte string: surrounding whitespace, an optional sign and one or
  more decimal digits; \<^verbatim>\<open>ValueError\<close> on anything else.  Python integers are unbounded.
  The client applies \<^verbatim>\<open>int\<close> to tokens of \<^verbatim>\<open>split()\<close> and to texts matched by
  \<^verbatim>\<open>[^\s]*\<close> only, which hold no whitespace.
\<close>

definition py_int :: "string \<Rightarrow> exn + int" where
  "py_int s =
     (case split_sign (strip s) of (neg, ds) \<Rightarrow>
        if ds \<noteq> [] \<and> list_all is_digit ds
        then Inr (if neg then - int (digits_val 0 ds) else int (digits_val 0 ds))
        else Inl ValueError)"




text \<open>\<^verbatim>\<open>'%d' % n\<close> for an integer \<open>n\<close>.\<close>

fun show_nat :: "nat \<Rightarrow> string" where
  "show_nat n = (if n < 10 then [''0123456789'' ! n]
                 else show_nat (n div 10) @ [''0123456789'' ! (n mod 10)])"

declare show_nat.simps [simp del]

definition show_int :: "int \<Rightarrow> string" where
  "show_int i = (if i < 0 then CHR ''-'' # show_nat (nat (- i)) else show_nat (nat i))"


section \<open>Regular expressions\<close>

text \<open>
  The fragment of Python's \<^verbatim>\<open>re\<close> that the two parsers use: anchors, one character of
  a class, the greedy star of a class, concatenation, alternation and numbered groups.
  Matching is by backtracking; \<open>rx_match\<close> returns every way the expression can match at
  a position, in the order in which the backtracking matcher tries them, so that the head
  of the list is the match that Python reports.  A position is the character before it
  (if any), the text from it on and the groups captured so far.  The flag \<open>m\<close> is
  \<^verbatim>\<open>re.M\<close>: with it \<^verbatim>\<open>^\<close> also matches after a newline and \<^verbatim>\<open>$\<close> before any
  newline; without it \<^verbatim>\<open>$\<close> matches at the end and before a final newline.
\<close>

datatype rx = Eps | Bol | Eol | Sat "char \<Rightarrow> bool" | Star "char \<Rightarrow> bool"
  | Cat rx rx | Alt rx rx | Grp nat rx

type_synonym groups = "(nat \<times> string) list"
type_synonym mstate = "char option \<times> string \<times> groups"

fun star :: "(char \<Rightarrow> bool) \<Rightarrow> char option \<Rightarrow> string \<Rightarrow> (char option \<times> string) list" where
  "star p prev [] = [(prev, [])]"
| "star p prev (c # cs) =
     (if p c then star p (Some c) cs @ [(prev, c # cs)] else [(prev, c # cs)])"

fun rx_match :: "bool \<Rightarrow> rx \<Rightarrow> mstate \<Rightarrow> mstate list" where
  "rx_match m Eps st = [st]"
| "rx_match m Bol (prev, rest, g) =
     (if prev = None \<or> (m \<and> prev = Some newline) then [(prev, rest, g)] else [])"
| "rx_match m Eol (prev, rest, g) =
     (if rest = [] \<or> (m \<and> take 1 rest = [newline]) \<or> (\<not> m \<and> rest = [newline])
      then [(prev, rest, g)] else [])"
| "rx_match m (Sat p) (prev, rest, g) =
     (case rest of [] \<Rightarrow> [] | c # cs \<Rightarrow> if p c then [(Some c, cs, g)] else [])"
| "rx_match m (Star p) (prev, rest, g) = map (\<lambda>(pv, r). (pv, r, g)) (star p prev rest)"
| "rx_match m (Cat a b) st = concat (map (rx_match m b) (rx_match m a st))"
| "rx_match m (Alt a b) st = rx_match m a st @ rx_match m b st"
| "rx_match m (Grp n a) (prev, rest, g) =
     map (\<lambda>(pv, r, g'). (pv, r, (n, take (length rest - length r) rest) # g'))
         (rx_match m a (prev, rest, g))"

text \<open>\<^verbatim>\<open>m.group(n)\<close>, for a group that took part in the match.\<close>

definition group :: "groups \<Rightarrow> nat \<Rightarrow> string" where
  "group g n = (case map_of g n of None \<Rightarrow> [] | Some x \<Rightarrow> x)"

text \<open>\<^verbatim>\<open>re.match(r, s)\<close>, without flags: the first match at the start of \<open>s\<close>.\<close>

definition re_match :: "rx \<Rightarrow> string \<Rightarrow> groups option" where
  "re_match r s =
     (case rx_match False r (None, s, []) of [] \<Rightarrow> None | (_, _, g) # _ \<Rightarrow> Some g)"

text \<open>
  \<^verbatim>\<open>re.finditer(r, s, re.M)\<close>: the leftmost match from the current position on, then the
  search goes on where that match ended (one character further after an empty match).
\<close>

function finditer_from :: "rx \<Rightarrow> char option \<Rightarrow> string \<Rightarrow> groups list" where
  "finditer_from r prev s =
     (case rx_match True r (prev, s, []) of
        (pv, rest, g) # _ \<Rightarrow>
          if length rest < length s then g # finditer_from r pv rest
          else (case s of [] \<Rightarrow> [g] | c # cs \<Rightarrow> g # finditer_from r (Some c) cs)
      | [] \<Rightarrow> (case s of [] \<Rightarrow> [] | c # cs \<Rightarrow> finditer_from r (Some c) cs))"
  by pat_completeness auto
termination
  by (relation "measure (\<lambda>(r, prev, s). length s)") auto

declare finditer_from.simps [simp del]

definition finditer :: "rx \<Rightarrow> string \<Rightarrow> groups list" where
  "finditer r s = finditer_from r None s"

definition plus_rx :: "(char \<Rightarrow> bool) \<Rightarrow> rx" where
  "plus_rx p = Cat (Sat p) (Star p)"

definition opt :: "rx \<Rightarrow> rx" where
  "opt r = Alt r Eps"

definition lit :: "char \<Rightarrow> rx" where
  "lit c = Sat (\<lambda>x. x = c)"

section \<open>The structured-text parsers\<close>

text \<open>\<^verbatim>\<open>^\s*([^:\s]+)\s*:\s*([^\s]*)$\<close>\<close>

definition dict_rx :: rx where
  "dict_rx = Cat Bol (Cat (Star is_space)
               (Cat (Grp 1 (plus_rx (\<lambda>c. c \<noteq> CHR '':'' \<and> \<not> is_space c)))
               (Cat (Star is_space) (Cat (lit CHR '':'') (Cat (Star is_space)
               (Cat (Grp 2 (Star (\<lambda>c. \<not> is_space c))) Eol))))))"

text \<open>
  \<^verbatim>\<open>^(0|-?[1-9][0-9]*)$\<close>, the group first and then the anchors around it.
\<close>

definition int_body :: rx where
  "int_body = Grp 1 (Alt (lit CHR ''0'')
               (Cat (opt (lit CHR ''-''))
                    (Cat (Sat (\<lambda>c. c \<in> set ''123456789'')) (Star is_digit))))"

definition int_rx :: rx where
  "int_rx = Cat Bol (Cat int_body Eol)"

text \<open>
  \<^verbatim>\<open>^(-?\d+(\.\d+)?(e[-+]?[1-9][0-9]*)?)$\<close>: the exponent \<^verbatim>\<open>e[-+]?[1-9][0-9]*\<close>,
  the fraction \<^verbatim>\<open>\.\d+\<close>, the outer group, and the anchors around it.
\<close>

definition exp_body :: rx where
  "exp_body = Cat (lit CHR ''e'') (Cat (opt (Sat (\<lambda>c. c \<in> set ''-+'')))
                (Cat (Sat (\<lambda>c. c \<in> set ''123456789'')) (Star is_digit)))"

definition frac_body :: rx where
  "frac_body = Cat (lit CHR ''.'') (plus_rx is_digit)"

definition float_body :: rx where
  "float_body = Grp 1 (Cat (opt (lit CHR ''-'')) (Cat (plus_rx is_digit)
                  (Cat (opt (Grp 2 frac_body)) (opt (Grp 3 exp_body)))))"

definition float_rx :: rx where
  "float_rx = Cat Bol (Cat float_body Eol)"

text \<open>\<^verbatim>\<open>^- (.*)$\<close>\<close>

definition list_rx :: rx where
  "list_rx = Cat Bol (Cat (lit CHR ''-'') (Cat (lit CHR '' '')
               (Cat (Grp 1 (Star (\<lambda>c. c \<noteq> newline))) Eol)))"






section \<open>What the parsers are to compute\<close>








text \<open>
  The pairs of key and value that the expression of the dict form matches in a text, in
  the order of the matches.  A later match for a key replaces an earlier one.
\<close>

definition dict_items :: "string \<Rightarrow> (string \<times> string) list" where
  "dict_items yaml = map (\<lambda>g. (group g 1, group g 2)) (finditer dict_rx yaml)"

section \<open>Notions for reasoning about the matcher\<close>

text \<open>
  Where a greedy star ends when nothing makes it give back: after the longest run of
  characters of the class.
\<close>

definition star_end :: "(char \<Rightarrow> bool) \<Rightarrow> char option \<Rightarrow> string \<Rightarrow> char option \<times> string" where
  "star_end p prev rest =
     (if takeWhile p rest = [] then prev else Some (last (takeWhile p rest)), dropWhile p rest)"

abbreviation not_nl :: "char \<Rightarrow> bool" where
  "not_nl \<equiv> (\<lambda>c. c \<noteq> newline)"


text \<open>The rest of the text after the first newline, if there is one.\<close>

definition next_line :: "string \<Rightarrow> string option" where
  "next_line s = (case dropWhile not_nl s of [] \<Rightarrow> None | _ # rest \<Rightarrow> Some rest)"







section \<open>The transport\<close>

text \<open>
  The world outside the client.  Every call on the socket or on its file (connecting,
  \<^verbatim>\<open>sendall\<close>, \<^verbatim>\<open>readline\<close>, \<^verbatim>\<open>read\<close>, \<^verbatim>\<open>close\<close>) takes the next outcome of
  \<open>net\<close>: \<open>Fail\<close> when the call raises \<^verbatim>\<open>socket.error\<close>, \<open>Done data\<close> when it
  returns (\<open>data\<close> is what a read returns; the other calls ignore it).  \<open>rand\<close> holds the
  values that \<^verbatim>\<open>random.uniform(1.0, 2.0)\<close> will return.  \<open>sent\<close> records the arguments
  of the calls of \<^verbatim>\<open>sendall\<close> and \<open>slept\<close> those of \<^verbatim>\<open>time.sleep\<close>, in order.
\<close>

datatype outcome = Fail | Done string

record world =
  net :: "outcome stream"
  rand :: "real stream"
  sent :: "string list"
  slept :: "real option list"

definition sock_connect :: "world \<Rightarrow> (exn + unit) \<times> world" where
  "sock_connect w =
     (case shd (net w) of
        Fail \<Rightarrow> (Inl SocketError, w\<lparr>net := stl (net w)\<rparr>)
      | Done _ \<Rightarrow> (Inr (), w\<lparr>net := stl (net w)\<rparr>))"

definition sendall :: "string \<Rightarrow> world \<Rightarrow> (exn + unit) \<times> world" where
  "sendall data w =
     (case shd (net w) of
        Fail \<Rightarrow> (Inl SocketError, w\<lparr>net := stl (net w), sent := sent w @ [data]\<rparr>)
      | Done _ \<Rightarrow> (Inr (), w\<lparr>net := stl (net w), sent := sent w @ [data]\<rparr>))"

definition sock_close :: "world \<Rightarrow> (exn + unit) \<times> world" where
  "sock_close w =
     (case shd (net w) of
        Fail \<Rightarrow> (Inl SocketError, w\<lparr>net := stl (net w)\<rparr>)
      | Done _ \<Rightarrow> (Inr (), w\<lparr>net := stl (net w)\<rparr>))"

definition readline :: "world \<Rightarrow> (exn + string) \<times> world" where
  "readline w =
     (case shd (net w) of
        Fail \<Rightarrow> (Inl SocketError, w\<lparr>net := stl (net w)\<rparr>)
      | Done data \<Rightarrow> (Inr data, w\<lparr>net := stl (net w)\<rparr>))"

text \<open>\<^verbatim>\<open>read(size)\<close> returns at most \<open>size\<close> bytes; a negative size reads all there is.\<close>

definition read :: "int \<Rightarrow> world \<Rightarrow> (exn + string) \<times> world" where
  "read sz w =
     (case shd (net w) of
        Fail \<Rightarrow> (Inl SocketError, w\<lparr>net := stl (net w)\<rparr>)
      | Done data \<Rightarrow>
          (Inr (if sz < 0 then data else take (nat sz) data), w\<lparr>net := stl (net w)\<rparr>))"

text \<open>
  \<^verbatim>\<open>self._current_wait_time()\<close> as a call: the back-off branch draws its random number.
\<close>

definition current_wait_time_call :: "connection \<Rightarrow> world \<Rightarrow> (exn + real option) \<times> world" where
  "current_wait_time_call c w =
     (if reconnect_strategy c = Some ''exp_backoff''
      then (current_wait_time (shd (rand w)) c, w\<lparr>rand := stl (rand w)\<rparr>)
      else (current_wait_time 1 c, w))"

section \<open>Connecting and closing\<close>

text \<open>
  A call that may not return has an \<open>option\<close> result: \<open>None\<close> is a run that goes on for
  ever.  A call that returns gives its value or the exception it raises, and the
  connection and the world as it leaves them.
\<close>

type_synonym 'a outcome_of = "((exn + 'a) \<times> connection \<times> world) option"

text \<open>
  The loop of \<^verbatim>\<open>Connection.connect\<close>.  Creating the socket, connecting it and making
  its file are one call on the transport.  Only \<^verbatim>\<open>socket.error\<close> is caught; an exception
  of \<^verbatim>\<open>_current_wait_time\<close> leaves the loop, after \<^verbatim>\<open>self._socket\<close> was assigned if
  it is raised in the argument of \<^verbatim>\<open>settimeout\<close>.  \<^verbatim>\<open>time.sleep\<close> and
  \<^verbatim>\<open>settimeout\<close> are taken to accept their argument.
\<close>

partial_function (option) connect_loop :: "connection \<Rightarrow> world \<Rightarrow> unit outcome_of" where
  "connect_loop c w =
     (case (if 0 < unsuccessful_connects c \<and> reconnect_strategy c \<noteq> None
            then (case current_wait_time_call c w of
                    (Inl e, w1) \<Rightarrow> (Inl e, w1)
                  | (Inr t, w1) \<Rightarrow> (Inr (), w1\<lparr>slept := slept w1 @ [t]\<rparr>))
            else (Inr (), w)) of
        (Inl e, w1) \<Rightarrow> Some (Inl e, c, w1)
      | (Inr _, w1) \<Rightarrow>
          (case (if truthy_timeout (connection_timeout c)
                 then current_wait_time_call (c\<lparr>has_socket := True\<rparr>) w1
                 else (Inr (connection_timeout c), w1)) of
             (Inl e, w2) \<Rightarrow> Some (Inl e, c\<lparr>has_socket := True\<rparr>, w2)
           | (Inr _, w2) \<Rightarrow>
               (case sock_connect w2 of
                  (Inl e, w3) \<Rightarrow>
                    connect_loop (c\<lparr>unsuccessful_connects := unsuccessful_connects c + 1,
                                     has_socket := False\<rparr>) w3
                | (Inr _, w3) \<Rightarrow>
                    Some (Inr (), c\<lparr>has_socket := True, unsuccessful_connects := 0\<rparr>, w3))))"

definition connect :: "connection \<Rightarrow> world \<Rightarrow> unit outcome_of" where
  "connect c w = (if \<not> conn_closed c then Some (Inr (), c, w) else connect_loop c w)"

text \<open>
  \<^verbatim>\<open>Connection.close\<close>: the \<^verbatim>\<open>try\<close> block, the handler that swallows
  \<^verbatim>\<open>socket.error\<close>, and the \<^verbatim>\<open>finally\<close> clause that forgets the socket.
\<close>

definition close_try :: "world \<Rightarrow> (exn + unit) \<times> world" where
  "close_try w =
     (case sendall (''quit'' @ CRLF) w of
        (Inl e, w1) \<Rightarrow> (Inl e, w1)
      | (Inr _, w1) \<Rightarrow> sock_close w1)"

definition close :: "connection \<Rightarrow> world \<Rightarrow> (exn + unit) \<times> connection \<times> world" where
  "close c w =
     (if conn_closed c then (Inr (), c, w)
      else (case close_try w of
              (Inl e, w1) \<Rightarrow>
                (if e = SocketError then (Inr (), c\<lparr>has_socket := False\<rparr>, w1)
                 else (Inl e, c\<lparr>has_socket := False\<rparr>, w1))
            | (Inr _, w1) \<Rightarrow> (Inr (), c\<lparr>has_socket := False\<rparr>, w1)))"

text \<open>
  \<^verbatim>\<open>Connection.__init__\<close>.  An unknown strategy raises before anything else happens;
  without a strategy the constructor connects.
\<close>

definition init ::
  "string \<Rightarrow> int \<Rightarrow> real option \<Rightarrow> string option \<Rightarrow> real \<Rightarrow> world \<Rightarrow> ((exn + connection) \<times> world) option" where
  "init h p timeout strategy bound w =
     (let c = \<lparr>has_socket = False, tube = ''default'', host = h, port = p,
                connection_timeout = timeout, unsuccessful_connects = 0,
                upper_backoff_bound = bound, reconnect_strategy = strategy\<rparr>
      in if strategy \<in> set [None, Some ''exp_backoff'', Some ''constant''] then
           (if strategy = None then
              (case connect c w of
                 None \<Rightarrow> None
               | Some (Inl e, c1, w1) \<Rightarrow> Some (Inl e, w1)
               | Some (Inr _, c1, w1) \<Rightarrow> Some (Inr c1, w1))
            else Some (Inr c, w))
         else Some (Inl ValueError, w))"

section \<open>The interaction cycle\<close>

definition read_response :: "world \<Rightarrow> (exn + string \<times> string list) \<times> world" where
  "read_response w =
     (case readline w of
        (Inl e, w1) \<Rightarrow> (Inl e, w1)
      | (Inr line, w1) \<Rightarrow>
          (if line = [] then (Inl SocketError, w1)
           else (case py_split line of
                   [] \<Rightarrow> (Inl IndexError, w1)
                 | status # results \<Rightarrow> (Inr (status, results), w1))))"

definition read_body :: "int \<Rightarrow> world \<Rightarrow> (exn + string) \<times> world" where
  "read_body sz w =
     (case read sz w of
        (Inl e, w1) \<Rightarrow> (Inl e, w1)
      | (Inr body, w1) \<Rightarrow>
          (case read 2 w1 of
             (Inl e, w2) \<Rightarrow> (Inl e, w2)
           | (Inr _, w2) \<Rightarrow>
               (if 0 < sz \<and> body = [] then (Inl SocketError, w2) else (Inr body, w2))))"

text \<open>
  The \<^verbatim>\<open>try\<close> block of \<^verbatim>\<open>_interact\<close>: one exchange on an open connection.
  \<open>size_field\<close> is \<^verbatim>\<open>None\<close> or the index of the token that holds the size of the body.
\<close>

definition interact_try ::
  "string \<Rightarrow> string list \<Rightarrow> string list \<Rightarrow> nat option \<Rightarrow> world \<Rightarrow> (exn + string list) \<times> world" where
  "interact_try command expected_ok expected_err size_field w =
     (case sendall command w of
        (Inl e, w1) \<Rightarrow> (Inl e, w1)
      | (Inr _, w1) \<Rightarrow>
          (case read_response w1 of
             (Inl e, w2) \<Rightarrow> (Inl e, w2)
           | (Inr (status, results), w2) \<Rightarrow>
               (if status \<in> set expected_ok then
                  (case size_field of
                     None \<Rightarrow> (Inr results, w2)
                   | Some i \<Rightarrow>
                       (if i < length results then
                          (case py_int (results ! i) of
                             Inl e \<Rightarrow> (Inl e, w2)
                           | Inr sz \<Rightarrow>
                               (case read_body sz w2 of
                                  (Inl e, w3) \<Rightarrow> (Inl e, w3)
                                | (Inr body, w3) \<Rightarrow> (Inr (results @ [body]), w3)))
                        else (Inl IndexError, w2)))
                else (case py_split command of
                        [] \<Rightarrow> (Inl IndexError, w2)
                      | name # _ \<Rightarrow>
                          (if status \<in> set expected_err
                           then (Inl (CommandFailed name status results), w2)
                           else (Inl (UnexpectedResponse name status results), w2))))))"

text \<open>
  \<^verbatim>\<open>Connection._interact\<close>: connect if need be, try the exchange, and on
  \<^verbatim>\<open>socket.error\<close> close the connection and start again, without bound.
\<close>

partial_function (option) interact ::
  "string \<Rightarrow> string list \<Rightarrow> string list \<Rightarrow> nat option \<Rightarrow> connection \<Rightarrow> world \<Rightarrow> string list outcome_of" where
  "interact command expected_ok expected_err size_field c w =
     (case connect c w of
        None \<Rightarrow> None
      | Some (Inl e, c1, w1) \<Rightarrow> Some (Inl e, c1, w1)
      | Some (Inr _, c1, w1) \<Rightarrow>
          (case interact_try command expected_ok expected_err size_field w1 of
             (Inl e, w2) \<Rightarrow>
               (if e = SocketError then
                  (case close c1 w2 of
                     (Inl e', c3, w3) \<Rightarrow> Some (Inl e', c3, w3)
                   | (Inr _, c3, w3) \<Rightarrow>
                       interact command expected_ok expected_err size_field c3 w3)
                else Some (Inl e, c1, w2))
           | (Inr results, w2) \<Rightarrow> Some (Inr results, c1, w2)))"

definition interact_value ::
  "string \<Rightarrow> string list \<Rightarrow> string list \<Rightarrow> connection \<Rightarrow> world \<Rightarrow> string outcome_of" where
  "interact_value command expected_ok expected_err c w =
     (case interact command expected_ok expected_err None c w of
        None \<Rightarrow> None
      | Some (Inl e, c1, w1) \<Rightarrow> Some (Inl e, c1, w1)
      | Some (Inr results, c1, w1) \<Rightarrow>
          (case results of
             [] \<Rightarrow> Some (Inl IndexError, c1, w1)
           | x # _ \<Rightarrow> Some (Inr x, c1, w1)))"

section \<open>Jobs\<close>

text \<open>
  A \<^verbatim>\<open>Job\<close>.  Its back-reference \<^verbatim>\<open>conn\<close> is not a field here: the operations of a
  job take the connection as an argument and return it.
\<close>

record job =
  jid :: int
  body :: string
  reserved :: bool

text \<open>
  \<^verbatim>\<open>jid, _, body = ...\<close> needs exactly three results, and a \<^verbatim>\<open>ValueError\<close> otherwise.
\<close>

definition interact_job ::
  "string \<Rightarrow> string list \<Rightarrow> string list \<Rightarrow> bool \<Rightarrow> connection \<Rightarrow> world \<Rightarrow> job outcome_of" where
  "interact_job command expected_ok expected_err rsv c w =
     (case interact command expected_ok expected_err (Some 1) c w of
        None \<Rightarrow> None
      | Some (Inl e, c1, w1) \<Rightarrow> Some (Inl e, c1, w1)
      | Some (Inr results, c1, w1) \<Rightarrow>
          (case results of
             [j, _, b] \<Rightarrow>
               (case py_int j of
                  Inl e \<Rightarrow> Some (Inl e, c1, w1)
                | Inr n \<Rightarrow> Some (Inr \<lparr>jid = n, body = b, reserved = rsv\<rparr>, c1, w1))
           | _ \<Rightarrow> Some (Inl ValueError, c1, w1)))"


text \<open>The handler of \<^verbatim>\<open>_interact_peek\<close> turns every \<^verbatim>\<open>CommandFailed\<close> into \<^verbatim>\<open>None\<close>.\<close>

definition interact_peek :: "string \<Rightarrow> connection \<Rightarrow> world \<Rightarrow> job option outcome_of" where
  "interact_peek command c w =
     (case interact_job command [''FOUND''] [''NOT_FOUND''] False c w of
        None \<Rightarrow> None
      | Some (Inl e, c1, w1) \<Rightarrow>
          (case e of
             CommandFailed _ status results \<Rightarrow> Some (Inr None, c1, w1)
           | _ \<Rightarrow> Some (Inl e, c1, w1))
      | Some (Inr j, c1, w1) \<Rightarrow> Some (Inr (Some j), c1, w1))"

section \<open>The public interface of a connection\<close>

text \<open>
  \<^verbatim>\<open>use\<close> returns \<^verbatim>\<open>None\<close> when the tube is the current one, and else the tube name
  that the server answers.  The tube is stored before the server is asked.
\<close>

definition use :: "string \<Rightarrow> connection \<Rightarrow> world \<Rightarrow> string option outcome_of" where
  "use name c w =
     (if tube c \<noteq> name then
        (case interact_value (''use '' @ name @ CRLF) [''USING''] [] (c\<lparr>tube := name\<rparr>) w of
           None \<Rightarrow> None
         | Some (Inl e, c1, w1) \<Rightarrow> Some (Inl e, c1, w1)
         | Some (Inr v, c1, w1) \<Rightarrow> Some (Inr (Some v), c1, w1))
      else Some (Inr None, c, w))"

text \<open>
  An argument of \<^verbatim>\<open>put\<close> that is meant to be the body: a byte string (\<^verbatim>\<open>str\<close>), or
  an object of any other type.
\<close>

datatype pyobj = Str string | NotStr

definition put ::
  "pyobj \<Rightarrow> int \<Rightarrow> int \<Rightarrow> int \<Rightarrow> string option \<Rightarrow> connection \<Rightarrow> world \<Rightarrow> int outcome_of" where
  "put b priority delay ttr tube_arg c w =
     (case b of
        NotStr \<Rightarrow> Some (Inl AssertionError, c, w)
      | Str bytes \<Rightarrow>
          (case (if tube_arg \<noteq> None \<and> tube_arg \<noteq> Some []
                 then use (the tube_arg) c w else Some (Inr None, c, w)) of
             None \<Rightarrow> None
           | Some (Inl e, c1, w1) \<Rightarrow> Some (Inl e, c1, w1)
           | Some (Inr _, c1, w1) \<Rightarrow>
               (case interact_value
                       (''put '' @ show_int priority @ '' '' @ show_int delay @ '' ''
                          @ show_int ttr @ '' '' @ show_int (int (length bytes)) @ CRLF
                          @ bytes @ CRLF)
                       [''INSERTED'', ''BURIED''] [''JOB_TOO_BIG''] c1 w1 of
                  None \<Rightarrow> None
                | Some (Inl e, c2, w2) \<Rightarrow> Some (Inl e, c2, w2)
                | Some (Inr v, c2, w2) \<Rightarrow>
                    (case py_int v of
                       Inl e \<Rightarrow> Some (Inl e, c2, w2)
                     | Inr n \<Rightarrow> Some (Inr n, c2, w2)))))"

text \<open>
  \<^verbatim>\<open>reserve\<close>, after the command it sends.  The handler returns \<^verbatim>\<open>None\<close> for \<^verbatim>\<open>TIMED_OUT\<close>, raises
  \<^verbatim>\<open>DeadlineSoon\<close> for \<^verbatim>\<open>DEADLINE_SOON\<close>, and falls off its end, which returns
  \<^verbatim>\<open>None\<close> too, for any other status.
\<close>

definition reserve_command :: "int option \<Rightarrow> string" where
  "reserve_command timeout =
     (case timeout of
        Some t \<Rightarrow> ''reserve-with-timeout '' @ show_int t @ CRLF
      | None \<Rightarrow> ''reserve'' @ CRLF)"

definition reserve :: "int option \<Rightarrow> connection \<Rightarrow> world \<Rightarrow> job option outcome_of" where
  "reserve timeout c w =
     (let command = reserve_command timeout
      in case interact_job command [''RESERVED''] [''DEADLINE_SOON'', ''TIMED_OUT''] True c w of
           None \<Rightarrow> None
         | Some (Inl e, c1, w1) \<Rightarrow>
             (case e of
                CommandFailed _ status results \<Rightarrow>
                  (if status = ''TIMED_OUT'' then Some (Inr None, c1, w1)
                   else if status = ''DEADLINE_SOON'' then Some (Inl (DeadlineSoon results), c1, w1)
                   else Some (Inr None, c1, w1))
              | _ \<Rightarrow> Some (Inl e, c1, w1))
         | Some (Inr j, c1, w1) \<Rightarrow> Some (Inr (Some j), c1, w1))"

definition peek :: "int \<Rightarrow> connection \<Rightarrow> world \<Rightarrow> job option outcome_of" where
  "peek n c w = interact_peek (''peek '' @ show_int n @ CRLF) c w"

definition peek_ready :: "connection \<Rightarrow> world \<Rightarrow> job option outcome_of" where
  "peek_ready c w = interact_peek (''peek-ready'' @ CRLF) c w"

definition peek_delayed :: "connection \<Rightarrow> world \<Rightarrow> job option outcome_of" where
  "peek_delayed c w = interact_peek (''peek-delayed'' @ CRLF) c w"

definition peek_buried :: "connection \<Rightarrow> world \<Rightarrow> job option outcome_of" where
  "peek_buried c w = interact_peek (''peek-buried'' @ CRLF) c w"







section \<open>The operations of a job\<close>











section \<open>A connection and transports to run the client on\<close>

text \<open>
  A connected connection with the default parameters, and the world whose transport
  gives the listed outcomes, then fails for ever, and in which nothing was sent yet.
\<close>

definition open_connection :: connection where
  "open_connection = \<lparr>has_socket = True, tube = ''default'', host = DEFAULT_HOST,
     port = DEFAULT_PORT, connection_timeout = Some DEFAULT_TIMEOUT, unsuccessful_connects = 0,
     upper_backoff_bound = DEFAULT_UPPER_BACKOFF_BOUND, reconnect_strategy = None\<rparr>"

definition answers :: "outcome list \<Rightarrow> world" where
  "answers xs = \<lparr>net = foldr (##) xs (sconst Fail), rand = sconst 1, sent = [], slept = []\<rparr>"

section \<open>Reconnection wait time\<close>

lemma current_wait_time_overflow:
  "current_wait_time r (c\<lparr>reconnect_strategy := Some ''exp_backoff'',
       unsuccessful_connects := 1024\<rparr>) = Inl OverflowError"
  by (simp add: current_wait_time_def math_pow2_def)

text \<open>
  C3, as stated, fails: with a configured timeout of zero the back-off branch multiplies
  by the default timeout \<open>0.05\<close>, not by the configured timeout, so the wait time is
  \<open>0.05\<close> and not the clamped product \<open>1 * 0 * 2 ^ 0 = 0\<close>.
\<close>

theorem C3_counterexample:
  "current_wait_time 1 \<lparr>has_socket = False, tube = ''default'', host = ''localhost'',
       port = 11300, connection_timeout = Some 0, unsuccessful_connects = 0,
       upper_backoff_bound = 30, reconnect_strategy = Some ''exp_backoff''\<rparr>
     = Inr (Some (5 / 100))
   \<and> min ((1::real) * 0 * 2 ^ 0) 30 \<noteq> 5 / 100"
  by (simp add: current_wait_time_def math_pow2_def truthy_timeout_def DEFAULT_TIMEOUT_def)

text \<open>
  C3 (amended): under the \<^verbatim>\<open>exp_backoff\<close> strategy and with fewer than 1024 consecutive
  unsuccessful connects, the wait time is \<open>r * t * 2 ^ n\<close> clamped to the upper bound,
  where \<open>t\<close> is the configured timeout, or the default \<open>0.05\<close> when the configured
  timeout is \<^verbatim>\<open>None\<close> or zero; and every wait time that is computed, for any counter and
  any random draw, is at most the configured upper bound.
\<close>

theorem C3_exp_backoff_wait_time:
  assumes "reconnect_strategy c = Some ''exp_backoff''"
  shows "(unsuccessful_connects c < 1024 \<longrightarrow>
            current_wait_time r c =
              Inr (Some (min (r * (case connection_timeout c of
                                      None \<Rightarrow> 5 / 100
                                    | Some t \<Rightarrow> if t = 0 then 5 / 100 else t)
                                * 2 ^ unsuccessful_connects c)
                             (upper_backoff_bound c))))
       \<and> (\<forall>t. current_wait_time r c = Inr (Some t) \<longrightarrow> t \<le> upper_backoff_bound c)"
  using assms
  by (auto simp: current_wait_time_def math_pow2_def truthy_timeout_def DEFAULT_TIMEOUT_def
           split: option.splits)

theorem C3_exp_backoff_wait_time_witness:
  "current_wait_time (3 / 2) \<lparr>has_socket = False, tube = ''default'', host = ''localhost'',
       port = 11300, connection_timeout = Some 2, unsuccessful_connects = 5,
       upper_backoff_bound = 30, reconnect_strategy = Some ''exp_backoff''\<rparr>
     = Inr (Some 30)"
  using C3_exp_backoff_wait_time [of "\<lparr>has_socket = False, tube = ''default'',
       host = ''localhost'', port = 11300, connection_timeout = Some 2,
       unsuccessful_connects = 5, upper_backoff_bound = 30,
       reconnect_strategy = Some ''exp_backoff''\<rparr>" "3 / 2"]
  by simp

text \<open>
  C4, as stated, fails: with a configured timeout of zero the \<^verbatim>\<open>constant\<close> strategy
  waits the default \<open>0.05\<close>, while the unset strategy returns the configured zero.
\<close>

theorem C4_counterexample:
  "current_wait_time 1 \<lparr>has_socket = False, tube = ''default'', host = ''localhost'',
       port = 11300, connection_timeout = Some 0, unsuccessful_connects = 0,
       upper_backoff_bound = 30, reconnect_strategy = Some ''constant''\<rparr>
   \<noteq> current_wait_time 1 \<lparr>has_socket = False, tube = ''default'', host = ''localhost'',
       port = 11300, connection_timeout = Some 0, unsuccessful_connects = 0,
       upper_backoff_bound = 30, reconnect_strategy = None\<rparr>"
  by (simp add: current_wait_time_def truthy_timeout_def DEFAULT_TIMEOUT_def)

text \<open>
  C4 (amended): for every connection whose configured timeout is a non-zero number, and
  for every failure count, the \<^verbatim>\<open>constant\<close> strategy and the unset strategy compute the
  same wait time, the configured timeout.
\<close>

theorem C4_constant_equals_none:
  assumes "connection_timeout c = Some t" and "t \<noteq> 0"
  shows "current_wait_time r (c\<lparr>reconnect_strategy := Some ''constant''\<rparr>) = Inr (Some t)
       \<and> current_wait_time r (c\<lparr>reconnect_strategy := None\<rparr>) = Inr (Some t)"
  using assms
  by (simp add: current_wait_time_def truthy_timeout_def DEFAULT_TIMEOUT_def)

theorem C4_constant_equals_none_witness:
  "current_wait_time 1 \<lparr>has_socket = False, tube = ''default'', host = ''localhost'',
       port = 11300, connection_timeout = Some (1 / 2), unsuccessful_connects = 7,
       upper_backoff_bound = 30, reconnect_strategy = Some ''constant''\<rparr> = Inr (Some (1 / 2))
   \<and> current_wait_time 1 \<lparr>has_socket = False, tube = ''default'', host = ''localhost'',
       port = 11300, connection_timeout = Some (1 / 2), unsuccessful_connects = 7,
       upper_backoff_bound = 30, reconnect_strategy = None\<rparr> = Inr (Some (1 / 2))"
  using C4_constant_equals_none [of "\<lparr>has_socket = False, tube = ''default'',
       host = ''localhost'', port = 11300, connection_timeout = Some (1 / 2),
       unsuccessful_connects = 7, upper_backoff_bound = 30,
       reconnect_strategy = Some ''constant''\<rparr>" "1 / 2" 1]
  by simp

section \<open>Facts about the connection\<close>

lemma connect_loop_tube_aux:
  assumes "connect_loop c w = Some y"
  shows "tube (fst (snd y)) = tube c"
proof (rule connect_loop.raw_induct
    [where P = "\<lambda>c w y. tube (fst (snd y)) = tube c", OF _ assms], goal_cases)
  case (1 f c w y)
  from 1(2) show ?case
    by (auto split: if_splits prod.splits sum.splits dest!: 1(1))
qed

lemma connect_tube:
  "connect c w = Some (r, c', w') \<Longrightarrow> tube c' = tube c"
  by (auto simp: connect_def dest: connect_loop_tube_aux split: if_splits)

lemma close_tube: "close c w = (r, c', w') \<Longrightarrow> tube c' = tube c"
  by (auto simp: close_def split: if_splits prod.splits sum.splits)

lemma close_result: "close c w = (r, c', w') \<Longrightarrow> r = Inr () \<and> conn_closed c'"
  by (auto simp: close_def close_try_def sendall_def sock_close_def conn_closed_def
      split: if_splits prod.splits sum.splits outcome.splits)

lemma interact_tube_aux:
  assumes "interact cmd ok err sf c w = Some y"
  shows "tube (fst (snd y)) = tube c"
proof (rule interact.raw_induct
    [where P = "\<lambda>cmd ok err sf c w y. tube (fst (snd y)) = tube c", OF _ assms], goal_cases)
  case (1 f cmd ok err sf c w y)
  from 1(2) show ?case
    by (auto split: if_splits prod.splits sum.splits option.splits
        dest!: connect_tube close_tube 1(1))
qed

lemma interact_tube:
  "interact cmd ok err sf c w = Some (r, c', w') \<Longrightarrow> tube c' = tube c"
  by (drule interact_tube_aux) simp

lemma interact_value_tube:
  "interact_value cmd ok err c w = Some (r, c', w') \<Longrightarrow> tube c' = tube c"
  by (auto simp: interact_value_def split: option.splits prod.splits sum.splits list.splits
      dest: interact_tube)


lemma close_closed: "conn_closed c \<Longrightarrow> close c w = (Inr (), c, w)"
  by (simp add: close_def)

lemma close_try_cases:
  "close_try w = (Inl SocketError, w') \<or> close_try w = (Inr (), w')
   \<longleftrightarrow> w' = (case shd (net w) of
        Fail \<Rightarrow> w\<lparr>net := stl (net w), sent := sent w @ [''quit'' @ CRLF]\<rparr>
      | Done _ \<Rightarrow> w\<lparr>net := stl (stl (net w)), sent := sent w @ [''quit'' @ CRLF]\<rparr>)"
  by (cases "shd (net w)"; cases "shd (stl (net w))")
     (auto simp: close_try_def sendall_def sock_close_def)

lemma close_try_result:
  "fst (close_try w) = Inl SocketError \<or> fst (close_try w) = Inr ()"
  by (cases "shd (net w)"; cases "shd (stl (net w))")
     (auto simp: close_try_def sendall_def sock_close_def)

lemma close_open:
  "\<not> conn_closed c \<Longrightarrow> close c w = (Inr (), c\<lparr>has_socket := False\<rparr>, snd (close_try w))"
  using close_try_result [of w]
  by (cases "close_try w") (auto simp: close_def)

lemma interact_first_round:
  assumes "connect c w = Some (Inr (), c1, w1)"
    and "interact_try cmd ok err sf w1 = (r, w2)"
    and "r \<noteq> Inl SocketError"
  shows "interact cmd ok err sf c w = Some (r, c1, w2)"
  using assms by (subst interact.simps) (auto split: sum.splits)

lemma interact_try_failure:
  assumes "shd (net w) = Done x" and "shd (stl (net w)) = Done line"
    and "py_split line = st # rs" and "st \<notin> set ok" and "py_split cmd = n # ns"
  shows "interact_try cmd ok err sf w =
           (Inl (if st \<in> set err then CommandFailed n st rs else UnexpectedResponse n st rs),
            w\<lparr>net := stl (stl (net w)), sent := sent w @ [cmd]\<rparr>)"
proof -
  have "line \<noteq> []" using assms(3) by (auto simp: py_split_def)
  then show ?thesis using assms
    by (simp add: interact_try_def sendall_def read_response_def readline_def)
qed

lemmas io_defs = sendall_def readline_def read_def sock_close_def sock_connect_def
  read_response_def read_body_def interact_try_def close_def close_try_def connect_def
  conn_closed_def py_split_def is_space_def is_digit_def CRLF_def newline_def

lemmas num_defs = py_int_def strip_def split_sign_def show_int_def show_nat.simps

lemmas rx_defs = dict_rx_def int_rx_def int_body_def float_rx_def float_body_def frac_body_def
  exp_body_def list_rx_def plus_rx_def opt_def lit_def re_match_def finditer_def
  finditer_from.simps group_def

lemma init_tube:
  "init h p t s b w = Some (Inr c, w') \<Longrightarrow> tube c = ''default''"
  by (auto simp: init_def Let_def split: if_splits option.splits prod.splits sum.splits
      dest!: connect_tube)

lemma use_command_split: "py_split (''use '' @ name @ CRLF) = ''use'' # py_split (name @ CRLF)"
  by (simp add: py_split_def is_space_def)

lemma use_same: "tube c = name \<Longrightarrow> use name c w = Some (Inr None, c, w)"
  by (simp add: use_def)

lemma use_sets_tube: "use name c w = Some (r, c', w') \<Longrightarrow> tube c' = name"
  by (auto simp: use_def split: if_splits option.splits prod.splits sum.splits
      dest!: interact_value_tube)

lemma use_first_round:
  assumes "tube c \<noteq> name" and "connect (c\<lparr>tube := name\<rparr>) w = Some (Inr (), c1, w1)"
    and "shd (net w1) = Done x" and "shd (stl (net w1)) = Done line"
    and "py_split line = st # rs"
  shows "\<exists>r. use name c w =
           Some (r, c1, w1\<lparr>net := stl (stl (net w1)), sent := sent w1 @ [''use '' @ name @ CRLF]\<rparr>)"
proof (cases "st \<in> set [''USING'']")
  case True
  have "line \<noteq> []" using assms(5) by (auto simp: py_split_def)
  then have "interact_try (''use '' @ name @ CRLF) [''USING''] [] None w1 =
      (Inr rs, w1\<lparr>net := stl (stl (net w1)), sent := sent w1 @ [''use '' @ name @ CRLF]\<rparr>)"
    using assms True
    by (simp add: interact_try_def sendall_def read_response_def readline_def)
  from interact_first_round [OF assms(2) this]
  show ?thesis using assms(1)
    by (simp add: use_def interact_value_def split: list.splits)
next
  case False
  from interact_first_round [OF assms(2)
      interact_try_failure [OF assms(3) assms(4) assms(5) False use_command_split]]
  show ?thesis using assms(1)
    by (simp add: use_def interact_value_def)
qed

lemma reserve_command_split: "\<exists>ns. py_split (reserve_command timeout) = (case timeout of None \<Rightarrow> ''reserve'' | Some _ \<Rightarrow> ''reserve-with-timeout'') # ns"
  by (cases timeout) (simp_all add: reserve_command_def py_split_def is_space_def CRLF_def)

lemma peek_command_split:
  "\<exists>ns. py_split (''peek '' @ show_int k @ CRLF) = ''peek'' # ns"
  "\<exists>ns. py_split (''peek-ready'' @ CRLF) = ''peek-ready'' # ns"
  "\<exists>ns. py_split (''peek-delayed'' @ CRLF) = ''peek-delayed'' # ns"
  "\<exists>ns. py_split (''peek-buried'' @ CRLF) = ''peek-buried'' # ns"
  by (simp_all add: py_split_def is_space_def CRLF_def)

text \<open>A known failure read in the first exchange surfaces as \<open>CommandFailed\<close>.\<close>

lemma interact_known_failure:
  assumes "connect c w = Some (Inr (), c1, w1)"
    and "shd (net w1) = Done x" and "shd (stl (net w1)) = Done line"
    and "py_split line = st # rs" and "st \<notin> set ok" and "st \<in> set err"
    and "py_split cmd = n # ns"
  shows "interact cmd ok err sf c w =
           Some (Inl (CommandFailed n st rs), c1,
                 w1\<lparr>net := stl (stl (net w1)), sent := sent w1 @ [cmd]\<rparr>)"
  using interact_first_round [OF assms(1)
      interact_try_failure [OF assms(2) assms(3) assms(4) assms(5) assms(7), of err sf]] assms(6)
  by simp

lemma reserve_failed:
  assumes "interact (reserve_command timeout) [''RESERVED''] [''DEADLINE_SOON'', ''TIMED_OUT'']
             (Some 1) c w = Some (Inl (CommandFailed n st rs), c', w')"
  shows "reserve timeout c w =
           Some (if st = ''DEADLINE_SOON'' then Inl (DeadlineSoon rs) else Inr None, c', w')"
  using assms by (simp add: reserve_def interact_job_def)

lemma interact_peek_failed:
  assumes "interact cmd [''FOUND''] [''NOT_FOUND''] (Some 1) c w =
             Some (Inl (CommandFailed n st rs), c', w')"
  shows "interact_peek cmd c w = Some (Inr None, c', w')"
  using assms by (simp add: interact_peek_def interact_job_def)

lemma reserve_wire:
  assumes "connect c w = Some (Inr (), c1, w1)" and "shd (net w1) = Done x"
    and "shd (stl (net w1)) = Done line" and "py_split line = st # rs"
    and "st = ''TIMED_OUT'' \<or> st = ''DEADLINE_SOON''"
  shows "reserve timeout c w =
           Some (if st = ''DEADLINE_SOON'' then Inl (DeadlineSoon rs) else Inr None, c1,
                 w1\<lparr>net := stl (stl (net w1)), sent := sent w1 @ [reserve_command timeout]\<rparr>)"
proof -
  obtain ns where ns: "py_split (reserve_command timeout) =
      (case timeout of None \<Rightarrow> ''reserve'' | Some _ \<Rightarrow> ''reserve-with-timeout'') # ns"
    using reserve_command_split by blast
  have "st \<notin> set [''RESERVED'']" "st \<in> set [''DEADLINE_SOON'', ''TIMED_OUT'']"
    using assms(5) by auto
  from interact_known_failure [OF assms(1-4) this ns, of "Some 1"]
  show ?thesis by (rule reserve_failed)
qed

lemma peek_wire:
  assumes "connect c w = Some (Inr (), c1, w1)" and "shd (net w1) = Done x"
    and "shd (stl (net w1)) = Done line" and "py_split line = ''NOT_FOUND'' # rs"
    and "py_split cmd = n # ns"
  shows "interact_peek cmd c w =
           Some (Inr None, c1, w1\<lparr>net := stl (stl (net w1)), sent := sent w1 @ [cmd]\<rparr>)"
proof -
  have "''NOT_FOUND'' \<notin> set [''FOUND'']" "''NOT_FOUND'' \<in> set [''NOT_FOUND'']"
    by auto
  from interact_known_failure [OF assms(1-4) this assms(5), of "Some 1"]
  show ?thesis by (rule interact_peek_failed)
qed

section \<open>Connection life cycle and configuration errors\<close>

text \<open>
  C8: \<^verbatim>\<open>close\<close> on a closed connection changes nothing and raises nothing; \<^verbatim>\<open>close\<close>
  on any connection returns normally and leaves it closed, whatever the transport does
  to the termination command and to the closing of the stream, so that a second
  \<^verbatim>\<open>close\<close> right after it is a no-op; \<^verbatim>\<open>connect\<close> on an open connection is a
  no-op.
\<close>

theorem C8_close_connect_idempotent:
  "(conn_closed c \<longrightarrow> close c w = (Inr (), c, w))
   \<and> fst (close c w) = Inr ()
   \<and> conn_closed (fst (snd (close c w)))
   \<and> close (fst (snd (close c w))) (snd (snd (close c w))) = (Inr (), snd (close c w))
   \<and> (\<not> conn_closed c \<longrightarrow> connect c w = Some (Inr (), c, w))"
proof (cases "conn_closed c")
  case True
  then show ?thesis by (simp add: close_closed)
next
  case False
  then show ?thesis
    by (simp add: close_open close_closed conn_closed_def connect_def)
qed

theorem C8_close_connect_idempotent_witness:
  "close \<lparr>has_socket = True, tube = ''default'', host = ''localhost'', port = 11300,
       connection_timeout = Some (5 / 100), unsuccessful_connects = 0,
       upper_backoff_bound = 30, reconnect_strategy = None\<rparr>
     \<lparr>net = Fail ## sconst Fail, rand = sconst 1, sent = [], slept = []\<rparr>
   = (Inr (), \<lparr>has_socket = False, tube = ''default'', host = ''localhost'', port = 11300,
       connection_timeout = Some (5 / 100), unsuccessful_connects = 0,
       upper_backoff_bound = 30, reconnect_strategy = None\<rparr>,
      \<lparr>net = sconst Fail, rand = sconst 1, sent = [''quit'' @ CRLF], slept = []\<rparr>)
  \<and> connect \<lparr>has_socket = True, tube = ''default'', host = ''localhost'', port = 11300,
       connection_timeout = Some (5 / 100), unsuccessful_connects = 0,
       upper_backoff_bound = 30, reconnect_strategy = None\<rparr>
     \<lparr>net = Fail ## sconst Fail, rand = sconst 1, sent = [], slept = []\<rparr>
   = Some (Inr (), \<lparr>has_socket = True, tube = ''default'', host = ''localhost'', port = 11300,
       connection_timeout = Some (5 / 100), unsuccessful_connects = 0,
       upper_backoff_bound = 30, reconnect_strategy = None\<rparr>,
     \<lparr>net = Fail ## sconst Fail, rand = sconst 1, sent = [], slept = []\<rparr>)"
  using C8_close_connect_idempotent [of "\<lparr>has_socket = True, tube = ''default'',
       host = ''localhost'', port = 11300,
       connection_timeout = Some (5 / 100), unsuccessful_connects = 0,
       upper_backoff_bound = 30, reconnect_strategy = None\<rparr>"
     "\<lparr>net = Fail ## sconst Fail, rand = sconst 1, sent = [], slept = []\<rparr>"]
  by (simp add: conn_closed_def close_def close_try_def sendall_def)

text \<open>
  C9: constructing a connection with a strategy other than \<^verbatim>\<open>None\<close>,
  \<^verbatim>\<open>'exp_backoff'\<close> and \<^verbatim>\<open>'constant'\<close> raises \<^verbatim>\<open>ValueError\<close> and leaves the
  world untouched (no connection attempt); \<^verbatim>\<open>put\<close> with a body that is not a byte
  string raises \<^verbatim>\<open>AssertionError\<close> and leaves the connection and the world untouched
  (nothing is sent).
\<close>

theorem C9_configuration_errors:
  "(strategy \<notin> {None, Some ''exp_backoff'', Some ''constant''} \<longrightarrow>
      init h p timeout strategy bound w = Some (Inl ValueError, w))
   \<and> put NotStr priority delay ttr tube_arg c w = Some (Inl AssertionError, c, w)"
  by (auto simp: init_def put_def Let_def)

theorem C9_configuration_errors_witness:
  "init ''localhost'' 11300 (Some (5 / 100)) (Some ''linear'') 30
     \<lparr>net = sconst Fail, rand = sconst 1, sent = [], slept = []\<rparr>
   = Some (Inl ValueError, \<lparr>net = sconst Fail, rand = sconst 1, sent = [], slept = []\<rparr>)"
  using C9_configuration_errors [of "Some ''linear''" "''localhost''" 11300 "Some (5 / 100)" 30
     "\<lparr>net = sconst Fail, rand = sconst 1, sent = [], slept = []\<rparr>"]
  by simp

section \<open>Tube caching\<close>

text \<open>
  C5: \<^verbatim>\<open>use(name)\<close> with the cached tube returns at once and leaves the connection
  and the world as they are (nothing is sent, read or connected); that is so for
  \<^verbatim>\<open>use('default')\<close> on a connection as the constructor returns it; a \<^verbatim>\<open>use(name)\<close>
  that follows a \<^verbatim>\<open>use(name)\<close> is such a no-op, however the first one ended; and a
  first \<^verbatim>\<open>use(name)\<close> with another tube than the cached one, whose exchange meets no
  socket error, sends the one command \<^verbatim>\<open>use name\<close> and reads the one response line.
\<close>

theorem C5_use_caches_tube:
  "(tube c = name \<longrightarrow> use name c w = Some (Inr None, c, w))
   \<and> (init h p t s b wi = Some (Inr ci, wi') \<longrightarrow>
        use ''default'' ci wi' = Some (Inr None, ci, wi'))
   \<and> (use name c w = Some (r, c', w') \<longrightarrow> use name c' w' = Some (Inr None, c', w'))
   \<and> (tube c \<noteq> name \<and> connect (c\<lparr>tube := name\<rparr>) w = Some (Inr (), ca, wa)
        \<and> shd (net wa) = Done x \<and> shd (stl (net wa)) = Done line \<and> py_split line = st # rs
        \<longrightarrow> (\<exists>r'. use name c w =
              Some (r', ca, wa\<lparr>net := stl (stl (net wa)),
                                sent := sent wa @ [''use '' @ name @ CRLF]\<rparr>)))"
  using use_first_round [of c name w ca wa x line st rs]
  by (auto dest: init_tube use_sets_tube simp: use_same)

theorem C5_use_caches_tube_witness:
  "use ''default'' open_connection (answers []) = Some (Inr None, open_connection, answers [])
   \<and> (\<exists>r. use ''x'' open_connection (answers [Done [], Done (''USING x'' @ CRLF)]) =
          Some (r, open_connection\<lparr>tube := ''x''\<rparr>,
                \<lparr>net = sconst Fail, rand = sconst 1, sent = [''use x'' @ CRLF], slept = []\<rparr>))"
  using C5_use_caches_tube [where c = open_connection and name = "''default''"
      and w = "answers []" and r = "Inl SocketError" and c' = open_connection and w' = "answers []"]
    C5_use_caches_tube [where c = open_connection and name = "''x''"
      and w = "answers [Done [], Done (''USING x'' @ CRLF)]"
      and ca = "open_connection\<lparr>tube := ''x''\<rparr>"
      and wa = "answers [Done [], Done (''USING x'' @ CRLF)]"
      and x = "[]" and line = "''USING x'' @ CRLF" and st = "''USING''" and rs = "[''x'']"]
  by (simp add: open_connection_def answers_def io_defs)

section \<open>Reserve and peek\<close>

text \<open>
  C1: whenever the interaction cycle of \<^verbatim>\<open>reserve\<close> (with or without timeout) ends
  with the known failure \<^verbatim>\<open>TIMED_OUT\<close>, \<^verbatim>\<open>reserve\<close> returns \<^verbatim>\<open>None\<close>; whenever it
  ends with \<^verbatim>\<open>DEADLINE_SOON\<close>, \<^verbatim>\<open>reserve\<close> raises \<^verbatim>\<open>DeadlineSoon\<close>, not
  \<^verbatim>\<open>CommandFailed\<close>; whenever the cycle of a peek operation ends with \<^verbatim>\<open>NOT_FOUND\<close>,
  the operation returns \<^verbatim>\<open>None\<close>.  On the wire: once the connection is up, a command
  that is sent and answered by a line whose status is \<^verbatim>\<open>TIMED_OUT\<close>,
  \<^verbatim>\<open>DEADLINE_SOON\<close> or \<^verbatim>\<open>NOT_FOUND\<close> has exactly these results.
\<close>

theorem C1_reserve_and_peek_absorb:
  "(interact (reserve_command timeout) [''RESERVED''] [''DEADLINE_SOON'', ''TIMED_OUT'']
        (Some 1) c w = Some (Inl (CommandFailed n st rs), c', w') \<longrightarrow>
      (st = ''TIMED_OUT'' \<longrightarrow> reserve timeout c w = Some (Inr None, c', w'))
      \<and> (st = ''DEADLINE_SOON'' \<longrightarrow> reserve timeout c w = Some (Inl (DeadlineSoon rs), c', w')))
   \<and> (interact cmd [''FOUND''] [''NOT_FOUND''] (Some 1) c w =
          Some (Inl (CommandFailed n ''NOT_FOUND'' rs), c', w') \<longrightarrow>
        interact_peek cmd c w = Some (Inr None, c', w'))
   \<and> peek k = interact_peek (''peek '' @ show_int k @ CRLF)
   \<and> peek_ready = interact_peek (''peek-ready'' @ CRLF)
   \<and> peek_delayed = interact_peek (''peek-delayed'' @ CRLF)
   \<and> peek_buried = interact_peek (''peek-buried'' @ CRLF)
   \<and> (connect c w = Some (Inr (), ca, wa)
        \<and> shd (net wa) = Done x \<and> shd (stl (net wa)) = Done line \<and> py_split line = st # rs \<longrightarrow>
      (st = ''TIMED_OUT'' \<longrightarrow>
         reserve timeout c w =
           Some (Inr None, ca, wa\<lparr>net := stl (stl (net wa)),
                                    sent := sent wa @ [reserve_command timeout]\<rparr>))
      \<and> (st = ''DEADLINE_SOON'' \<longrightarrow>
         reserve timeout c w =
           Some (Inl (DeadlineSoon rs), ca,
                 wa\<lparr>net := stl (stl (net wa)), sent := sent wa @ [reserve_command timeout]\<rparr>))
      \<and> (st = ''NOT_FOUND'' \<longrightarrow>
         peek k c w =
           Some (Inr None, ca, wa\<lparr>net := stl (stl (net wa)),
                                    sent := sent wa @ [''peek '' @ show_int k @ CRLF]\<rparr>)
         \<and> peek_ready c w =
           Some (Inr None, ca, wa\<lparr>net := stl (stl (net wa)),
                                    sent := sent wa @ [''peek-ready'' @ CRLF]\<rparr>)
         \<and> peek_delayed c w =
           Some (Inr None, ca, wa\<lparr>net := stl (stl (net wa)),
                                    sent := sent wa @ [''peek-delayed'' @ CRLF]\<rparr>)
         \<and> peek_buried c w =
           Some (Inr None, ca, wa\<lparr>net := stl (stl (net wa)),
                                    sent := sent wa @ [''peek-buried'' @ CRLF]\<rparr>)))"
proof (intro conjI impI, goal_cases)
  case 1
  then show ?case by (simp add: reserve_def interact_job_def)
next
  case 2
  then show ?case by (simp add: reserve_def interact_job_def)
next
  case 3
  then show ?case by (simp add: interact_peek_def interact_job_def)
next
  case 4
  show ?case by (simp add: peek_def fun_eq_iff)
next
  case 5
  show ?case by (simp add: peek_ready_def fun_eq_iff)
next
  case 6
  show ?case by (simp add: peek_delayed_def fun_eq_iff)
next
  case 7
  show ?case by (simp add: peek_buried_def fun_eq_iff)
next
  case 8
  then show ?case using reserve_wire [of c w ca wa x line st rs timeout] by simp
next
  case 9
  then show ?case using reserve_wire [of c w ca wa x line st rs timeout] by simp
next
  case 10
  then show ?case
    using peek_wire [of c w ca wa x line rs] peek_command_split(1) [of k]
    unfolding peek_def by blast
next
  case 11
  then show ?case
    using peek_wire [of c w ca wa x line rs] peek_command_split(2)
    unfolding peek_ready_def by blast
next
  case 12
  then show ?case
    using peek_wire [of c w ca wa x line rs] peek_command_split(3)
    unfolding peek_delayed_def by blast
next
  case 13
  then show ?case
    using peek_wire [of c w ca wa x line rs] peek_command_split(4)
    unfolding peek_buried_def by blast
qed

theorem C1_reserve_and_peek_absorb_witness:
  "reserve None open_connection (answers [Done [], Done (''TIMED_OUT'' @ CRLF)]) =
     Some (Inr None, open_connection,
           \<lparr>net = sconst Fail, rand = sconst 1, sent = [''reserve'' @ CRLF], slept = []\<rparr>)
   \<and> reserve (Some 5) open_connection (answers [Done [], Done (''DEADLINE_SOON'' @ CRLF)]) =
     Some (Inl (DeadlineSoon []), open_connection,
           \<lparr>net = sconst Fail, rand = sconst 1,
             sent = [''reserve-with-timeout 5'' @ CRLF], slept = []\<rparr>)
   \<and> peek_ready open_connection (answers [Done [], Done (''NOT_FOUND'' @ CRLF)]) =
     Some (Inr None, open_connection,
           \<lparr>net = sconst Fail, rand = sconst 1, sent = [''peek-ready'' @ CRLF], slept = []\<rparr>)"
  using C1_reserve_and_peek_absorb [where c = open_connection and timeout = None
      and w = "answers [Done [], Done (''TIMED_OUT'' @ CRLF)]" and ca = open_connection
      and wa = "answers [Done [], Done (''TIMED_OUT'' @ CRLF)]"
      and x = "[]" and line = "''TIMED_OUT'' @ CRLF" and st = "''TIMED_OUT''" and rs = "[]"]
    C1_reserve_and_peek_absorb [where c = open_connection and timeout = "Some 5"
      and w = "answers [Done [], Done (''DEADLINE_SOON'' @ CRLF)]" and ca = open_connection
      and wa = "answers [Done [], Done (''DEADLINE_SOON'' @ CRLF)]"
      and x = "[]" and line = "''DEADLINE_SOON'' @ CRLF" and st = "''DEADLINE_SOON''" and rs = "[]"]
    C1_reserve_and_peek_absorb [where c = open_connection
      and w = "answers [Done [], Done (''NOT_FOUND'' @ CRLF)]" and ca = open_connection
      and wa = "answers [Done [], Done (''NOT_FOUND'' @ CRLF)]"
      and x = "[]" and line = "''NOT_FOUND'' @ CRLF" and st = "''NOT_FOUND''" and rs = "[]"]
  by (simp add: open_connection_def answers_def io_defs reserve_command_def num_defs)

section \<open>Job state\<close>





section \<open>Facts about the matcher and the parsers\<close>

lemma star_end_Nil [simp]: "star_end p prev [] = (prev, [])"
  by (simp add: star_end_def)



lemma star_end_rest: "snd (star_end p prev rest) = dropWhile p rest"
  by (simp add: star_end_def)





lemma next_line_simps [simp]:
  "next_line [] = None"
  "next_line (c # cs) = (if c = newline then Some cs else next_line cs)"
  by (simp_all add: next_line_def)


lemma next_line_dropWhile [simp]: "next_line (dropWhile not_nl s) = next_line s"
  by (induction s) auto









































































section \<open>The structured-text parsers are total and classify\<close>

lemma dict_example_items:
  "dict_items (''name: foo'' @ [newline] @ ''count: 3'' @ [newline] @ ''ratio: 1.5'' @ [newline])
   = [(''name'', ''foo''), (''count'', ''3''), (''ratio'', ''1.5'')]"
  by (simp add: dict_items_def rx_defs newline_def is_space_def)









end
